theory Spec2Isabelle
  imports Main "HOL-Library.Sublist"
begin

section \<open>The squaring client of \<^verbatim>\<open>frontend/src/App.js\<close>\<close>

text \<open>
  The repository holds one React component, \<^verbatim>\<open>App\<close>, and a deployment guide that
  shows a later revision of the component's click handler:
  \<^verbatim>\<open>
  function App() {
    const [number, setNumber] = useState("");
    function sample(result) {
      document.getElementById("text_a").innerHTML = result;
    }
    const squareHandler = () => {
      axios.post("/square", { number: number }).then((res) => {
        sample(res.data);
      });
    };
    return (<>
        <input onChange={(event) => setNumber(event.target.value)} placeholder="Number" />
        <button onClick={squareHandler}>Square</button>
        <h1 id="text_a"></h1>
      </>);
  }
  \<close>
  and, in the guide (section "React Frontend API Call"):
  \<^verbatim>\<open>
  const squareHandler = () => {
      axios.post("/api/square", { number: numberInt }, {
        headers: { 'Content-Type': 'application/json' }
      })
      .then((res) => { sample(res.data); })
      .catch((error) => {
        console.error("Error:", error);
        sample("Error: " + error.message);
      });
  };
  \<close>
  The component is modelled as a state machine over the events of the browser's event
  loop: an edit of the input field, a click on the button, and the settlement of an
  outstanding call. Each event runs to completion before the next one, as JavaScript
  callbacks do.
\<close>

subsection \<open>Values on the wire\<close>

text \<open>
  The payload is a JavaScript object literal with the single key \<^verbatim>\<open>number\<close>; its value
  is a string in \<^verbatim>\<open>App.js\<close> and the variable \<^verbatim>\<open>numberInt\<close> in the guide. A
  JavaScript number that is \<^verbatim>\<open>NaN\<close> is serialised by \<^verbatim>\<open>JSON.stringify\<close> as
  \<^verbatim>\<open>null\<close>.
\<close>

datatype jvalue = JString string | JNumber int | JNull

type_synonym jobject = "(string \<times> jvalue) list"

type_synonym header_list = "(string \<times> string) list"

datatype verb = GET | POST

record request =
  verb :: verb
  url :: string
  body :: jobject
  headers :: header_list

record error =
  message :: string

text \<open>
  What the fulfilment callback finds in \<^verbatim>\<open>res.data\<close>. The library parses a response
  body that is JSON text and leaves any other body as the string it is, so
  \<^verbatim>\<open>res.data\<close> is a string, or some other value: a number, a boolean,
  \<^verbatim>\<open>null\<close>, an array, an object. The handlers use \<^verbatim>\<open>res.data\<close> in one place, as
  the right-hand side of the assignment to \<^verbatim>\<open>innerHTML\<close>, which converts it to a
  string. The conversion is the browser's, so a value that is not a string is given
  by what the conversion makes of it:
  \<^item> \<open>JS_other c\<close>: the value is converted to the string \<open>c\<close> (a number to its
    digits, \<^verbatim>\<open>null\<close> to the empty string, a plain object to
    \<^verbatim>\<open>[object Object]\<close>);
  \<^item> \<open>JS_unconvertible e\<close>: the conversion throws \<open>e\<close> (an object with a property
    \<^verbatim>\<open>toString\<close> of its own, which JSON cannot make a function).
\<close>

datatype js_value = JS_string string | JS_other string | JS_unconvertible error

text \<open>
  What comes back for a call. The transport fails: the request meets a network error or
  is aborted (no timeout is configured, so none expires). Or the server answers: the
  status, the body as sent, and the value the library makes of the body for
  \<^verbatim>\<open>res.data\<close>. The parser is the library's, so an answer carries both.
\<close>

datatype failure = Network_Error | Request_Aborted

datatype reply = Transport_Error failure | Http_Response nat string js_value

record response =
  status :: nat
  data :: js_value

subsection \<open>The HTTP client library\<close>

text \<open>
  \<^verbatim>\<open>axios\<close> is imported by \<^verbatim>\<open>App.js\<close> (line 3); its code is not part of the
  repository. The model takes the library's documented behaviour:
  \<^item> \<^verbatim>\<open>axios.post(url, data, config)\<close> sends one POST request to \<^verbatim>\<open>url\<close> with
    \<^verbatim>\<open>data\<close> serialised as JSON and the headers of \<^verbatim>\<open>config\<close>; for an object
    payload the header \<^verbatim>\<open>Content-Type: application/json\<close> is added when the
    configuration sets no content type;
  \<^item> the returned promise is fulfilled with the response when the status is in
    \<^verbatim>\<open>200..299\<close>, and rejected with an error otherwise: the transport's error
    (\<^verbatim>\<open>Network Error\<close>, \<^verbatim>\<open>Request aborted\<close>), or
    \<^verbatim>\<open>Request failed with status code N\<close>.
  The field \<open>headers\<close> of a request lists the headers that the call's arguments and
  the payload decide; what the library and the browser add to every request is left out.
\<close>

definition setContentTypeIfUnset :: "header_list \<Rightarrow> string \<Rightarrow> header_list" where
  "setContentTypeIfUnset hs v =
     (case map_of hs ''Content-Type'' of
        None \<Rightarrow> hs @ [(''Content-Type'', v)]
      | Some _ \<Rightarrow> hs)"

definition axios_post :: "string \<Rightarrow> jobject \<Rightarrow> header_list \<Rightarrow> request" where
  "axios_post u d hs =
     \<lparr>verb = POST, url = u, body = d,
      headers = setContentTypeIfUnset hs ''application/json''\<rparr>"

definition digit_char :: "nat \<Rightarrow> char" where
  "digit_char d = ''0123456789'' ! d"

function decimal :: "nat \<Rightarrow> string" where
  "decimal n = (if n < 10 then [digit_char n] else decimal (n div 10) @ [digit_char (n mod 10)])"
  by pat_completeness auto
termination
  by (relation "measure (\<lambda>n. n)") auto

declare decimal.simps [simp del]

definition validateStatus :: "nat \<Rightarrow> bool" where
  "validateStatus st = (200 \<le> st \<and> st < 300)"

fun failure_message :: "failure \<Rightarrow> string" where
  "failure_message Network_Error = ''Network Error''"
| "failure_message Request_Aborted = ''Request aborted''"

fun axios_settle :: "reply \<Rightarrow> error + response" where
  "axios_settle (Transport_Error f) = Inl \<lparr>message = failure_message f\<rparr>"
| "axios_settle (Http_Response st b v) =
     (if validateStatus st then Inr \<lparr>status = st, data = v\<rparr>
      else Inl \<lparr>message = ''Request failed with status code '' @ decimal st\<rparr>)"

subsection \<open>The component's state\<close>

text \<open>
  \<^item> \<open>number\<close>: the React state variable of line 7, initially the empty string;
  \<^item> \<open>text_a\<close>: the string last assigned to \<^verbatim>\<open>innerHTML\<close> of the element
    \<^verbatim>\<open>text_a\<close> (how the browser lays a string out is not modelled);
  \<^item> \<open>requests\<close>: every request sent so far, in order; a call is named by its index;
  \<^item> \<open>pending\<close>: the calls that have not settled yet;
  \<^item> \<open>renders\<close>: the strings that the calls of \<^verbatim>\<open>sample\<close> have assigned so far,
    in order;
  \<^item> \<open>unhandled\<close>: the rejections that reached no rejection callback, which the
    browser reports as unhandled promise rejections;
  \<^item> \<open>console\<close>: what was passed to \<^verbatim>\<open>console.error\<close>.
\<close>

record app_state =
  number :: string
  text_a :: string
  requests :: "request list"
  pending :: "nat list"
  renders :: "string list"
  unhandled :: "error list"
  console :: "(string \<times> error) list"

definition init :: app_state where
  "init = \<lparr>number = [], text_a = [], requests = [], pending = [],
           renders = [], unhandled = [], console = []\<rparr>"

subsection \<open>The component's functions\<close>

definition setNumber :: "string \<Rightarrow> app_state \<Rightarrow> app_state" where
  "setNumber v s = s\<lparr>number := v\<rparr>"

text \<open>
  \<^verbatim>\<open>sample(result)\<close> assigns \<^verbatim>\<open>result\<close> to \<^verbatim>\<open>innerHTML\<close>, and the assignment
  converts its right-hand side to a string. \<open>sample\<close> is the assignment of the
  string; \<open>to_DOMString\<close> is the conversion, made where a callback passes
  \<^verbatim>\<open>res.data\<close>. The rejection callback of the guide passes a string.
\<close>

definition to_DOMString :: "js_value \<Rightarrow> error + string" where
  "to_DOMString v =
     (case v of JS_string t \<Rightarrow> Inr t | JS_other c \<Rightarrow> Inr c | JS_unconvertible e \<Rightarrow> Inl e)"

definition sample :: "string \<Rightarrow> app_state \<Rightarrow> app_state" where
  "sample result s = s\<lparr>text_a := result, renders := renders s @ [result]\<rparr>"

definition console_error :: "string \<Rightarrow> error \<Rightarrow> app_state \<Rightarrow> app_state" where
  "console_error label e s = s\<lparr>console := console s @ [(label, e)]\<rparr>"

definition issue :: "request \<Rightarrow> app_state \<Rightarrow> app_state" where
  "issue r s = s\<lparr>requests := requests s @ [r],
                 pending := pending s @ [length (requests s)]\<rparr>"

text \<open>
  \<^verbatim>\<open>App.js\<close>, lines 14 to 18: the call, and the only callback it registers. A
  callback returns the new state, or the error it throws.
\<close>

definition squareHandler :: "app_state \<Rightarrow> app_state" where
  "squareHandler s = issue (axios_post ''/square'' [(''number'', JString (number s))] []) s"

definition squareHandler_then :: "response \<Rightarrow> app_state \<Rightarrow> error + app_state" where
  "squareHandler_then res s =
     (case to_DOMString (data res) of Inl e \<Rightarrow> Inl e | Inr t \<Rightarrow> Inr (sample t s))"

text \<open>
  The guide's handler. \<^verbatim>\<open>numberInt\<close> is declared nowhere in the repository; its value
  when the button is clicked is a parameter: an integer, or \<open>None\<close> for \<^verbatim>\<open>NaN\<close>.
\<close>

definition of_numberInt :: "int option \<Rightarrow> jvalue" where
  "of_numberInt n = (case n of None \<Rightarrow> JNull | Some i \<Rightarrow> JNumber i)"

definition squareHandler_api :: "int option \<Rightarrow> app_state \<Rightarrow> app_state" where
  "squareHandler_api numberInt s =
     issue (axios_post ''/api/square'' [(''number'', of_numberInt numberInt)]
              [(''Content-Type'', ''application/json'')]) s"

definition squareHandler_api_then :: "response \<Rightarrow> app_state \<Rightarrow> error + app_state" where
  "squareHandler_api_then res s =
     (case to_DOMString (data res) of Inl e \<Rightarrow> Inl e | Inr t \<Rightarrow> Inr (sample t s))"

definition squareHandler_api_catch :: "error \<Rightarrow> app_state \<Rightarrow> app_state" where
  "squareHandler_api_catch e s =
     sample (''Error: '' @ message e) (console_error ''Error:'' e s)"

subsection \<open>The event loop\<close>

text \<open>
  Which of the two handlers the button runs: the one of \<^verbatim>\<open>App.js\<close> or the one
  of the guide. A click carries the value that \<^verbatim>\<open>numberInt\<close> holds at that moment;
  only the guide's handler reads it.
\<close>

datatype revision = App_js | Guide

datatype event = Change string | Click "int option" | Settle nat reply

text \<open>
  A promise with \<^verbatim>\<open>.then(f)\<close> alone runs \<^verbatim>\<open>f\<close> when fulfilled; a rejection, and
  an error that \<^verbatim>\<open>f\<close> throws, find no callback and are reported as unhandled. With
  \<^verbatim>\<open>.then(f).catch(g)\<close> both run \<^verbatim>\<open>g\<close>.
\<close>

definition unhandled_rejection :: "error \<Rightarrow> app_state \<Rightarrow> app_state" where
  "unhandled_rejection e s = s\<lparr>unhandled := unhandled s @ [e]\<rparr>"

fun deliver :: "revision \<Rightarrow> error + response \<Rightarrow> app_state \<Rightarrow> app_state" where
  "deliver App_js (Inr res) s =
     (case squareHandler_then res s of Inr t \<Rightarrow> t | Inl e \<Rightarrow> unhandled_rejection e s)"
| "deliver App_js (Inl e) s = unhandled_rejection e s"
| "deliver Guide (Inr res) s =
     (case squareHandler_api_then res s of Inr t \<Rightarrow> t | Inl e \<Rightarrow> squareHandler_api_catch e s)"
| "deliver Guide (Inl e) s = squareHandler_api_catch e s"

fun step :: "revision \<Rightarrow> event \<Rightarrow> app_state \<Rightarrow> app_state" where
  "step rv (Change v) s = setNumber v s"
| "step App_js (Click numberInt) s = squareHandler s"
| "step Guide (Click numberInt) s = squareHandler_api numberInt s"
| "step rv (Settle i rp) s =
     (if i \<in> set (pending s)
      then deliver rv (axios_settle rp) (s\<lparr>pending := removeAll i (pending s)\<rparr>)
      else s)"

definition run :: "revision \<Rightarrow> event list \<Rightarrow> app_state \<Rightarrow> app_state" where
  "run rv evs s = foldl (\<lambda>t ev. step rv ev t) s evs"

subsection \<open>Observations used in the statements\<close>

text \<open>The strings typed into the field during a run of events, in order.\<close>

fun edits :: "event list \<Rightarrow> string list" where
  "edits [] = []"
| "edits (Change v # evs) = v # edits evs"
| "edits (Click n # evs) = edits evs"
| "edits (Settle i rp # evs) = edits evs"

text \<open>The string of the most recent call of \<^verbatim>\<open>sample\<close>; empty before the first.\<close>

definition shown :: "app_state \<Rightarrow> string" where
  "shown s = (if renders s = [] then [] else last (renders s))"

text \<open>What the guide's handler passes to \<^verbatim>\<open>sample\<close> for a reply.\<close>

definition guide_result :: "reply \<Rightarrow> string" where
  "guide_result rp =
     (case axios_settle rp of
        Inl e \<Rightarrow> ''Error: '' @ message e
      | Inr res \<Rightarrow>
          (case to_DOMString (data res) of Inl e \<Rightarrow> ''Error: '' @ message e | Inr t \<Rightarrow> t))"

section \<open>Facts about single events and runs\<close>

lemmas component_defs =
  setNumber_def sample_def console_error_def issue_def to_DOMString_def
  squareHandler_def squareHandler_then_def unhandled_rejection_def
  squareHandler_api_def squareHandler_api_then_def squareHandler_api_catch_def

lemmas library_defs = axios_post_def setContentTypeIfUnset_def validateStatus_def

lemma run_Nil: "run rv [] s = s"
  by (simp add: run_def)

lemma run_Cons: "run rv (ev # evs) s = run rv evs (step rv ev s)"
  by (simp add: run_def)

lemma settle_pending:
  "i \<in> set (pending s) \<Longrightarrow>
   step rv (Settle i rp) s = deliver rv (axios_settle rp) (s\<lparr>pending := removeAll i (pending s)\<rparr>)"
  by simp

lemma settle_unknown: "i \<notin> set (pending s) \<Longrightarrow> step rv (Settle i rp) s = s"
  by simp

lemma number_deliver: "number (deliver rv out s) = number s"
proof (cases out)
  case (Inl e)
  then show ?thesis by (cases rv) (simp_all add: component_defs)
next
  case (Inr res)
  then show ?thesis
    by (cases rv; cases "data res") (simp_all add: component_defs)
qed

lemma number_step:
  "number (step rv ev s) = (case ev of Change v \<Rightarrow> v | Click n \<Rightarrow> number s | Settle i rp \<Rightarrow> number s)"
  by (cases ev; cases rv) (simp_all add: setNumber_def issue_def squareHandler_def
      squareHandler_api_def number_deliver del: deliver.simps)

lemma number_run: "number (run rv evs s) = last (number s # edits evs)"
proof (induction evs arbitrary: s)
  case Nil
  show ?case by (simp add: run_Nil)
next
  case (Cons ev evs)
  show ?case
    by (cases ev) (simp_all add: run_Cons Cons.IH number_step del: step.simps)
qed

lemma requests_deliver: "requests (deliver rv out s) = requests s"
proof (cases out)
  case (Inl e)
  then show ?thesis by (cases rv) (simp_all add: component_defs)
next
  case (Inr res)
  then show ?thesis
    by (cases rv; cases "data res") (simp_all add: component_defs)
qed

lemma pending_deliver: "pending (deliver rv out s) = pending s"
proof (cases out)
  case (Inl e)
  then show ?thesis by (cases rv) (simp_all add: component_defs)
next
  case (Inr res)
  then show ?thesis
    by (cases rv; cases "data res") (simp_all add: component_defs)
qed

lemma pending_settle: "pending (step rv (Settle i rp) s) = removeAll i (pending s)"
  by (simp add: pending_deliver del: deliver.simps)

lemma shown_deliver:
  assumes "text_a s = shown s"
  shows "text_a (deliver rv out s) = shown (deliver rv out s)"
proof (cases out)
  case (Inl e)
  with assms show ?thesis by (cases rv) (simp_all add: component_defs shown_def)
next
  case (Inr res)
  with assms show ?thesis
    by (cases rv; cases "data res") (simp_all add: component_defs shown_def)
qed

lemma shown_step: "text_a s = shown s \<Longrightarrow> text_a (step rv ev s) = shown (step rv ev s)"
proof (cases ev)
  case (Change v)
  assume "text_a s = shown s"
  with Change show ?thesis by (simp add: component_defs shown_def)
next
  case (Click n)
  assume "text_a s = shown s"
  with Click show ?thesis by (cases rv) (simp_all add: component_defs shown_def)
next
  case (Settle i rp)
  assume inv: "text_a s = shown s"
  show ?thesis
  proof (cases "i \<in> set (pending s)")
    case True
    have "text_a (s\<lparr>pending := removeAll i (pending s)\<rparr>) =
          shown (s\<lparr>pending := removeAll i (pending s)\<rparr>)"
      using inv by (simp add: shown_def)
    then have "text_a (deliver rv (axios_settle rp) (s\<lparr>pending := removeAll i (pending s)\<rparr>)) =
          shown (deliver rv (axios_settle rp) (s\<lparr>pending := removeAll i (pending s)\<rparr>))"
      by (rule shown_deliver)
    then show ?thesis
      unfolding Settle settle_pending [OF True] .
  next
    case False
    show ?thesis
      unfolding Settle settle_unknown [OF False] by (rule inv)
  qed
qed

lemma shown_run: "text_a s = shown s \<Longrightarrow> text_a (run rv evs s) = shown (run rv evs s)"
  by (induction evs arbitrary: s) (simp_all add: run_Nil run_Cons shown_step)

section \<open>Settled calls\<close>

lemma rejected_message_nonempty: "axios_settle rp = Inl e \<Longrightarrow> message e \<noteq> []"
proof (cases rp)
  case (Transport_Error f)
  assume "axios_settle rp = Inl e"
  with Transport_Error show ?thesis by (cases f) auto
next
  case (Http_Response st b v)
  assume "axios_settle rp = Inl e"
  with Http_Response show ?thesis by (auto split: if_splits)
qed

lemma guide_rejection_rendered:
  assumes "i \<in> set (pending s)" and "axios_settle rp = Inl e"
  shows "renders (step Guide (Settle i rp) s) = renders s @ [''Error: '' @ message e]"
    and "text_a (step Guide (Settle i rp) s) = ''Error: '' @ message e"
    and "unhandled (step Guide (Settle i rp) s) = unhandled s"
  using assms by (simp_all add: component_defs)

lemma app_js_rejection_dropped:
  assumes "i \<in> set (pending s)" and "axios_settle rp = Inl e"
  shows "renders (step App_js (Settle i rp) s) = renders s"
    and "text_a (step App_js (Settle i rp) s) = text_a s"
    and "unhandled (step App_js (Settle i rp) s) = unhandled s @ [e]"
  using assms by (simp_all add: component_defs)

lemma guide_one_render:
  "i \<in> set (pending s) \<Longrightarrow>
   length (renders (step Guide (Settle i rp) s)) = Suc (length (renders s))"
proof (cases "axios_settle rp")
  case (Inl e)
  assume "i \<in> set (pending s)"
  with Inl show ?thesis by (simp add: component_defs)
next
  case (Inr res)
  assume "i \<in> set (pending s)"
  with Inr show ?thesis by (cases "data res") (simp_all add: component_defs)
qed

lemma fulfilled_rendered:
  assumes "i \<in> set (pending s)" and "axios_settle rp = Inr res"
    and "to_DOMString (data res) = Inr t"
  shows "renders (step rv (Settle i rp) s) = renders s @ [t]"
    and "text_a (step rv (Settle i rp) s) = t"
    and "unhandled (step rv (Settle i rp) s) = unhandled s"
  using assms by (cases rv; simp add: component_defs)+

lemma fulfilled_unconvertible:
  assumes "i \<in> set (pending s)" and "axios_settle rp = Inr res"
    and "data res = JS_unconvertible e"
  shows "renders (step App_js (Settle i rp) s) = renders s"
    and "unhandled (step App_js (Settle i rp) s) = unhandled s @ [e]"
    and "renders (step Guide (Settle i rp) s) = renders s @ [''Error: '' @ message e]"
    and "unhandled (step Guide (Settle i rp) s) = unhandled s"
  using assms by (simp_all add: component_defs)

lemma guide_settle_text:
  "i \<in> set (pending s) \<Longrightarrow> text_a (step Guide (Settle i rp) s) = guide_result rp"
proof (cases "axios_settle rp")
  case (Inl e)
  assume "i \<in> set (pending s)"
  with Inl show ?thesis by (simp add: component_defs guide_result_def)
next
  case (Inr res)
  assume "i \<in> set (pending s)"
  with Inr show ?thesis
    by (cases "data res") (simp_all add: component_defs guide_result_def)
qed

lemma guide_last_settled_wins:
  assumes "i \<in> set (pending s)" and "j \<in> set (pending s)" and "i \<noteq> j"
  shows "text_a (step Guide (Settle i ri) (step Guide (Settle j rj) s)) = guide_result ri"
proof -
  have "i \<in> set (pending (step Guide (Settle j rj) s))"
    using assms by (simp add: pending_settle del: step.simps)
  then show ?thesis by (rule guide_settle_text)
qed

lemma app_js_last_fulfilled_wins:
  assumes "i \<in> set (pending s)" and "j \<in> set (pending s)" and "i \<noteq> j"
    and "validateStatus st"
  shows "text_a (step App_js (Settle i (Http_Response st b (JS_string d))) (step App_js (Settle j rj) s)) = d"
proof -
  have "i \<in> set (pending (step App_js (Settle j rj) s))"
    using assms by (simp add: pending_settle del: step.simps)
  then show ?thesis using assms(4) by (simp add: component_defs)
qed

section \<open>The claims\<close>

subsection \<open>C1: a failed call ends as a rendered failure\<close>

text \<open>
  C1 asks that every call that fails (the transport fails, or the server answers outside
  \<^verbatim>\<open>2xx\<close>) is caught by the handler and handed to \<^verbatim>\<open>sample\<close> as a failure
  text, and that no error escapes. The guide's handler does so
  (\<open>guide_rejection_rendered\<close>). The handler of \<^verbatim>\<open>App.js\<close> registers no
  rejection callback, so a failed call leaves the display as it was and its rejection
  unhandled (\<open>app_js_rejection_dropped\<close>): after one click and a failed call,
  \<^verbatim>\<open>sample\<close> has not been called and the rejection is unhandled, for a transport
  error and for a status 500.
\<close>

theorem app_js_rejection_unhandled:
  "renders (run App_js [Click None, Settle 0 (Transport_Error Network_Error)] init) = []
   \<and> unhandled (run App_js [Click None, Settle 0 (Transport_Error Network_Error)] init)
       = [\<lparr>message = ''Network Error''\<rparr>]
   \<and> renders (run App_js [Click None,
          Settle 0 (Http_Response 500 ''Internal Server Error'' (JS_string ''Internal Server Error''))] init) = []
   \<and> unhandled (run App_js [Click None,
          Settle 0 (Http_Response 500 ''Internal Server Error'' (JS_string ''Internal Server Error''))] init)
       = [\<lparr>message = ''Request failed with status code 500''\<rparr>]"
  by (simp add: run_def init_def component_defs library_defs decimal.simps digit_char_def)

subsection \<open>C2: what the request carries\<close>

text \<open>
  C2 says that every click sends the raw string of the field as the \<^verbatim>\<open>number\<close>
  field. The guide's handler sends \<^verbatim>\<open>numberInt\<close> instead: with \<^verbatim>\<open>"5"\<close> typed
  and \<^verbatim>\<open>numberInt = 5\<close>, the body is not \<^verbatim>\<open>{number: "5"}\<close>.
\<close>

theorem raw_string_forwarded_counterexample:
  "map body (requests (run Guide [Change ''5'', Click (Some 5)] init))
     \<noteq> [[(''number'', JString ''5'')]]"
  by (simp add: run_def init_def component_defs library_defs of_numberInt_def)

text \<open>
  C2 as amended: the handler of \<^verbatim>\<open>App.js\<close> sends the raw string of the field,
  whatever it is, as the \<^verbatim>\<open>number\<close> field; the guide's handler sends the value of
  \<^verbatim>\<open>numberInt\<close>: the integer as a JSON number, and \<^verbatim>\<open>null\<close> for \<^verbatim>\<open>NaN\<close>. In
  both, every click sends its request: nothing is checked first, and one more call is
  outstanding afterwards.
\<close>

theorem payload_of_each_handler:
  "map body (requests (step App_js (Click n) s))
     = map body (requests s) @ [[(''number'', JString (number s))]]
   \<and> map body (requests (step Guide (Click (Some k)) s))
     = map body (requests s) @ [[(''number'', JNumber k)]]
   \<and> map body (requests (step Guide (Click None) s))
     = map body (requests s) @ [[(''number'', JNull)]]
   \<and> pending (step rv (Click n) s) = pending s @ [length (requests s)]"
  by (cases rv) (simp_all add: component_defs library_defs of_numberInt_def)

subsection \<open>C3: one render for each click\<close>

text \<open>
  C3 asks for exactly one call of \<^verbatim>\<open>sample\<close> for each click, whether the call
  succeeds or fails. The guide's handler renders once for each settled call
  (\<open>guide_one_render\<close>). In \<^verbatim>\<open>App.js\<close> a click whose call is answered with
  status 404 is settled with no call of \<^verbatim>\<open>sample\<close> at all.
\<close>

theorem app_js_failed_call_never_renders:
  "length (renders (run App_js [Change ''5'', Click None,
      Settle 0 (Http_Response 404 ''Not Found'' (JS_string ''Not Found''))] init)) = 0
   \<and> pending (run App_js [Change ''5'', Click None,
      Settle 0 (Http_Response 404 ''Not Found'' (JS_string ''Not Found''))] init) = []"
  by (simp add: run_def init_def component_defs library_defs decimal.simps digit_char_def)

subsection \<open>C4: what is shown for a successful response\<close>

text \<open>
  C4 says that the body of every successful response is shown as it is. The callback
  shows \<^verbatim>\<open>res.data\<close>, which the library has made of the body, converted to a
  string: for the body \<^verbatim>\<open>{}\<close> the text is \<^verbatim>\<open>[object Object]\<close>, and for the body
  \<^verbatim>\<open>"25"\<close>, a JSON string with its quotes, the text is \<^verbatim>\<open>25\<close> without them.
\<close>

theorem success_body_verbatim_counterexample:
  \<open>text_a (run App_js [Change ''5'', Click None,
       Settle 0 (Http_Response 200 ''{}'' (JS_other ''[object Object]''))] init) = ''[object Object]''
   \<and> text_a (run App_js [Change ''5'', Click None,
       Settle 0 (Http_Response 200 ''{}'' (JS_other ''[object Object]''))] init) \<noteq> ''{}''
   \<and> text_a (run App_js [Change ''5'', Click None,
       Settle 0 (Http_Response 200 ''"25"'' (JS_string ''25''))] init) \<noteq> ''"25"''\<close>
  by (simp add: run_def init_def component_defs library_defs)

text \<open>
  C4 as amended: when an outstanding call is answered with a status in
  \<^verbatim>\<open>200..299\<close>, whatever the body, the callback of either handler passes
  \<^verbatim>\<open>res.data\<close> to \<^verbatim>\<open>sample\<close> and the string assigned to \<^verbatim>\<open>innerHTML\<close> is
  \<^verbatim>\<open>res.data\<close> itself when it is a string, and the string it is converted to when it
  is another value. With \<^verbatim>\<open>"5"\<close> typed, one click and an answer whose data is the string
  \<^verbatim>\<open>"25"\<close>, the text is \<^verbatim>\<open>"25"\<close>.
\<close>

theorem success_data_assigned:
  assumes "i \<in> set (pending s)" and "200 \<le> st" and "st < 300"
  shows "text_a (step rv (Settle i (Http_Response st b (JS_string t))) s) = t
     \<and> renders (step rv (Settle i (Http_Response st b (JS_string t))) s) = renders s @ [t]
     \<and> text_a (step rv (Settle i (Http_Response st b (JS_other c))) s) = c
     \<and> renders (step rv (Settle i (Http_Response st b (JS_other c))) s) = renders s @ [c]
     \<and> text_a (run rv [Change ''5'', Click n, Settle 0 (Http_Response 200 b (JS_string ''25''))] init)
         = ''25''"
proof -
  have v: "validateStatus st"
    using assms(2,3) by (simp add: validateStatus_def)
  have str: "axios_settle (Http_Response st b (JS_string t)) = Inr \<lparr>status = st, data = JS_string t\<rparr>"
    using v by simp
  have oth: "axios_settle (Http_Response st b (JS_other c)) = Inr \<lparr>status = st, data = JS_other c\<rparr>"
    using v by simp
  have cs: "to_DOMString (data \<lparr>status = st, data = JS_string t\<rparr>) = Inr t"
    by (simp add: to_DOMString_def)
  have co: "to_DOMString (data \<lparr>status = st, data = JS_other c\<rparr>) = Inr c"
    by (simp add: to_DOMString_def)
  note a = fulfilled_rendered [OF assms(1) str cs, of rv]
  note b = fulfilled_rendered [OF assms(1) oth co, of rv]
  have "text_a (run rv [Change ''5'', Click n, Settle 0 (Http_Response 200 b (JS_string ''25''))] init)
      = ''25''"
    by (cases rv) (simp_all add: run_def init_def component_defs library_defs)
  with a(1,2) b(1,2) show ?thesis by blast
qed

text \<open>
  The scenario of C4 in \<^verbatim>\<open>App.js\<close>, through the theorem: the server sends the JSON
  string \<^verbatim>\<open>"25"\<close>.
\<close>

theorem success_data_assigned_witness:
  \<open>0 \<in> set (pending (run App_js [Change ''5'', Click None] init))
   \<and> text_a (step App_js (Settle 0 (Http_Response 200 ''"25"'' (JS_string ''25'')))
               (run App_js [Change ''5'', Click None] init)) = ''25''\<close>
proof -
  have p: "0 \<in> set (pending (run App_js [Change ''5'', Click None] init))"
    by (simp add: run_def init_def component_defs library_defs)
  have lo: "(200::nat) \<le> 200" and hi: "(200::nat) < 300"
    by simp_all
  from success_data_assigned [OF p lo hi, where rv = App_js and t = "''25''"] p show ?thesis
    by blast
qed

subsection \<open>C5: an edit replaces the stored string\<close>

text \<open>
  C5: after \<^verbatim>\<open>onChange\<close> with any string, \<open>number\<close> is exactly that string, and
  nothing else of the state changes: no condition, no trimming, no parsing.
\<close>

theorem onEdit_replaces_number:
  "number (setNumber v s) = v \<and> number (step rv (Change v) s) = v
   \<and> step rv (Change v) s = s\<lparr>number := v\<rparr>"
  by (simp add: setNumber_def)

subsection \<open>C6: the text of a failure\<close>

text \<open>
  C6 says that the text shown for a failure is told apart from every text shown for a
  success by reading it. The data of a successful response is shown as it is, so data
  that start with the marker read as a failure: the answer \<^verbatim>\<open>Error: Network Error\<close>
  with status 200 and a network error leave the same text.
\<close>

theorem failure_text_distinguishable_counterexample:
  "text_a (run Guide [Click None,
      Settle 0 (Http_Response 200 ''Error: Network Error'' (JS_string ''Error: Network Error''))] init)
   = text_a (run Guide [Click None, Settle 0 (Transport_Error Network_Error)] init)"
  by (simp add: run_def init_def component_defs library_defs)

text \<open>
  C6 as amended, for the handler that registers the rejection callback (the guide's):
  when an outstanding call fails, the message of its error is not empty
  (\<^verbatim>\<open>Network Error\<close>, \<^verbatim>\<open>Request aborted\<close>, or \<^verbatim>\<open>Request failed with status code\<close>
  and the status), \<^verbatim>\<open>sample\<close> receives \<^verbatim>\<open>"Error: "\<close> followed by that message, and
  the text shown starts with \<^verbatim>\<open>"Error: "\<close>. It differs from the text shown for every
  successful response whose data, as a string, do not start with \<^verbatim>\<open>"Error: "\<close>.
\<close>

theorem failure_text_marked:
  assumes "i \<in> set (pending s)" and "axios_settle rp = Inl e"
    and "st' < 200 \<or> 300 \<le> st'"
    and "j \<in> set (pending s')" and "200 \<le> st" and "st < 300"
    and "\<not> prefix ''Error: '' d"
  shows "message e \<noteq> []
     \<and> renders (step Guide (Settle i rp) s) = renders s @ [''Error: '' @ message e]
     \<and> text_a (step Guide (Settle i rp) s) = ''Error: '' @ message e
     \<and> prefix ''Error: '' (text_a (step Guide (Settle i rp) s))
     \<and> text_a (step Guide (Settle i (Transport_Error Network_Error)) s) = ''Error: Network Error''
     \<and> text_a (step Guide (Settle i (Transport_Error Request_Aborted)) s) = ''Error: Request aborted''
     \<and> text_a (step Guide (Settle i (Http_Response st' b' v')) s)
         = ''Error: Request failed with status code '' @ decimal st'
     \<and> text_a (step Guide (Settle i rp) s)
         \<noteq> text_a (step Guide (Settle j (Http_Response st b (JS_string d))) s')
     \<and> text_a (step Guide (Settle i rp) s)
         \<noteq> text_a (step Guide (Settle j (Http_Response st b (JS_other d))) s')"
proof -
  have m: "message e \<noteq> []"
    by (rule rejected_message_nonempty [OF assms(2)])
  have r: "renders (step Guide (Settle i rp) s) = renders s @ [''Error: '' @ message e]"
    by (rule guide_rejection_rendered(1) [OF assms(1,2)])
  have t: "text_a (step Guide (Settle i rp) s) = ''Error: '' @ message e"
    by (rule guide_rejection_rendered(2) [OF assms(1,2)])
  have p: "prefix ''Error: '' (text_a (step Guide (Settle i rp) s))"
    unfolding t by simp
  have n1: "text_a (step Guide (Settle i (Transport_Error Network_Error)) s) = ''Error: Network Error''"
    using guide_rejection_rendered(2) [OF assms(1), of "Transport_Error Network_Error"] by simp
  have n2: "text_a (step Guide (Settle i (Transport_Error Request_Aborted)) s) = ''Error: Request aborted''"
    using guide_rejection_rendered(2) [OF assms(1), of "Transport_Error Request_Aborted"] by simp
  have bad: "\<not> validateStatus st'"
    using assms(3) by (auto simp add: validateStatus_def)
  have n3: "text_a (step Guide (Settle i (Http_Response st' b' v')) s)
         = ''Error: Request failed with status code '' @ decimal st'"
    using guide_rejection_rendered(2) [OF assms(1), of "Http_Response st' b' v'"] bad by simp
  have v: "validateStatus st"
    using assms(5,6) by (simp add: validateStatus_def)
  have us: "text_a (step Guide (Settle j (Http_Response st b (JS_string d))) s') = d"
    using fulfilled_rendered(2) [OF assms(4), of "Http_Response st b (JS_string d)" _ d Guide] v
    by (simp add: to_DOMString_def)
  have uo: "text_a (step Guide (Settle j (Http_Response st b (JS_other d))) s') = d"
    using fulfilled_rendered(2) [OF assms(4), of "Http_Response st b (JS_other d)" _ d Guide] v
    by (simp add: to_DOMString_def)
  have ne: "''Error: '' @ message e \<noteq> d"
    using assms(7) by auto
  have d1: "text_a (step Guide (Settle i rp) s)
         \<noteq> text_a (step Guide (Settle j (Http_Response st b (JS_string d))) s')"
    unfolding t us by (rule ne)
  have d2: "text_a (step Guide (Settle i rp) s)
         \<noteq> text_a (step Guide (Settle j (Http_Response st b (JS_other d))) s')"
    unfolding t uo by (rule ne)
  from m r t p n1 n2 n3 d1 d2 show ?thesis by blast
qed

text \<open>
  An instance: a click on the empty field whose call ends in a network error, against
  the answer \<^verbatim>\<open>"25"\<close> to another click.
\<close>

theorem failure_text_marked_witness:
  \<open>text_a (step Guide (Settle 0 (Transport_Error Network_Error)) (run Guide [Click None] init))
     = ''Error: Network Error''
   \<and> message \<lparr>message = ''Network Error''\<rparr> \<noteq> []
   \<and> text_a (step Guide (Settle 0 (Transport_Error Network_Error)) (run Guide [Click None] init))
     \<noteq> text_a (step Guide (Settle 0 (Http_Response 200 ''"25"'' (JS_string ''25'')))
                 (run Guide [Change ''5'', Click (Some 5)] init))\<close>
proof -
  have p: "0 \<in> set (pending (run Guide [Click None] init))"
    by (simp add: run_def init_def component_defs library_defs)
  have f: "axios_settle (Transport_Error Network_Error) = Inl \<lparr>message = ''Network Error''\<rparr>"
    by simp
  have o: "(500::nat) < 200 \<or> 300 \<le> (500::nat)"
    by simp
  have q: "0 \<in> set (pending (run Guide [Change ''5'', Click (Some 5)] init))"
    by (simp add: run_def init_def component_defs library_defs)
  have lo: "(200::nat) \<le> 200" and hi: "(200::nat) < 300"
    by simp_all
  have n: "\<not> prefix ''Error: '' ''25''"
    by simp
  from failure_text_marked [OF p f o q lo hi n] show ?thesis
    by blast
qed

subsection \<open>C7: the request of a click\<close>

text \<open>
  C7: a click sends exactly one request, and no other event sends any. The request is
  a POST to \<^verbatim>\<open>/square\<close> (\<^verbatim>\<open>App.js\<close>) or \<^verbatim>\<open>/api/square\<close> (the guide). Its body
  is an object with the one field \<^verbatim>\<open>number\<close>: the string of the field in
  \<^verbatim>\<open>App.js\<close>, and in the guide the integer \<^verbatim>\<open>numberInt\<close> as a JSON number, or
  \<^verbatim>\<open>null\<close> when \<^verbatim>\<open>numberInt\<close> is \<^verbatim>\<open>NaN\<close>. It carries the header
  \<^verbatim>\<open>Content-Type: application/json\<close>, set by the guide's handler itself and by the
  library for the object payload of \<^verbatim>\<open>App.js\<close>.
\<close>

theorem click_issues_one_json_post:
  "(let r = last (requests (step rv (Click n) s)) in
      requests (step rv (Click n) s) = requests s @ [r]
      \<and> verb r = POST
      \<and> url r = (case rv of App_js \<Rightarrow> ''/square'' | Guide \<Rightarrow> ''/api/square'')
      \<and> body r =
          [(''number'',
            case rv of
              App_js \<Rightarrow> JString (number s)
            | Guide \<Rightarrow> (case n of None \<Rightarrow> JNull | Some k \<Rightarrow> JNumber k))]
      \<and> map_of (headers r) ''Content-Type'' = Some ''application/json'')
   \<and> requests (step rv (Change v) s) = requests s
   \<and> requests (step rv (Settle i rp) s) = requests s"
  by (cases rv) (simp_all add: component_defs library_defs of_numberInt_def requests_deliver
      del: deliver.simps)

subsection \<open>C8: only an edit changes the stored string\<close>

text \<open>
  C8: neither handler changes \<open>number\<close>, and neither does the settlement of a call,
  fulfilled or rejected. After any run of events, \<open>number\<close> is the string of the last
  edit of the run, or what it was before the run when the run has no edit.
\<close>

theorem only_change_mutates_number:
  "number (squareHandler s) = number s
   \<and> number (squareHandler_api n s) = number s
   \<and> number (step rv (Click n) s) = number s
   \<and> number (step rv (Settle i rp) s) = number s
   \<and> number (step rv (Settle i rp) (step rv (Click n) s)) = number s
   \<and> number (run rv evs s) = last (number s # edits evs)"
  by (simp add: number_step number_run del: step.simps) (simp add: component_defs)

subsection \<open>C9: overlapping calls\<close>

text \<open>
  C9 asks that, of two overlapping calls, the one that settles last decides the text
  shown. The guide's handler does so for every pair of replies
  (\<open>guide_last_settled_wins\<close>), and \<^verbatim>\<open>App.js\<close> does when the later reply is a
  success (\<open>app_js_last_fulfilled_wins\<close>). In \<^verbatim>\<open>App.js\<close>, when the call issued
  first settles last and fails, the display keeps the result of the other call.
\<close>

theorem app_js_last_settled_failure_not_shown:
  \<open>text_a (run App_js [Change ''2'', Click None, Change ''3'', Click None,
                       Settle 1 (Http_Response 200 ''"9"'' (JS_string ''9'')),
                       Settle 0 (Transport_Error Network_Error)] init) = ''9''
   \<and> renders (run App_js [Change ''2'', Click None, Change ''3'', Click None,
                       Settle 1 (Http_Response 200 ''"9"'' (JS_string ''9'')),
                       Settle 0 (Transport_Error Network_Error)] init) = [''9'']
   \<and> pending (run App_js [Change ''2'', Click None, Change ''3'', Click None,
                       Settle 1 (Http_Response 200 ''"9"'' (JS_string ''9'')),
                       Settle 0 (Transport_Error Network_Error)] init) = []\<close>
  by (simp add: run_def init_def component_defs library_defs)

subsection \<open>C10: the display holds the latest render only\<close>

text \<open>
  C10: \<^verbatim>\<open>sample\<close> overwrites the display. After any sequence of calls of
  \<^verbatim>\<open>sample\<close>, from any state, the display holds the string of the last call; and
  after any run of events from the initial state the display holds the string of the
  most recent call of \<^verbatim>\<open>sample\<close>, or nothing when there was none.
\<close>

theorem display_holds_latest_render:
  "text_a (sample r s) = r
   \<and> text_a (foldl (\<lambda>t x. sample x t) s (rs @ [r])) = r
   \<and> text_a (run rv evs init) = shown (run rv evs init)"
proof -
  have "text_a init = shown init"
    by (simp add: init_def shown_def)
  then have "text_a (run rv evs init) = shown (run rv evs init)"
    by (rule shown_run)
  then show ?thesis
    by (simp add: sample_def)
qed

end
